theory Spec2Isabelle
  imports Main
begin

section \<open>Python values\<close>

text \<open>
  A Python \<open>str\<close> is a sequence of Unicode code points, and \<open>len\<close> counts code points,
  so a string is a list of code points here. \<open>lit\<close> embeds an ASCII literal of the source.
\<close>

type_synonym pystr = "nat list"

definition lit :: "string \<Rightarrow> pystr" where
  "lit s = map of_char s"

text \<open>\<open>quoted s\<close> is \<open>s\<close> between two apostrophes (code point 39).\<close>

definition quoted :: "pystr \<Rightarrow> pystr" where
  "quoted s = 39 # s @ [39]"

text \<open>
  The characters \<open>str.strip()\<close> removes: those for which \<open>str.isspace()\<close> holds
  (tab to carriage return, the four separators 28 to 31, space, NEL, no-break space and
  the Unicode space separators).
\<close>

definition isspace :: "nat \<Rightarrow> bool" where
  "isspace c \<longleftrightarrow>
     (9 \<le> c \<and> c \<le> 13) \<or> (28 \<le> c \<and> c \<le> 32) \<or> c = 133 \<or> c = 160 \<or> c = 5760 \<or>
     (8192 \<le> c \<and> c \<le> 8202) \<or> c = 8232 \<or> c = 8233 \<or> c = 8239 \<or> c = 8287 \<or> c = 12288"

definition strip :: "pystr \<Rightarrow> pystr" where
  "strip s = rev (dropWhile isspace (rev (dropWhile isspace s)))"

text \<open>\<open>s.rstrip("/")\<close>: every trailing slash (code point 47) is removed.\<close>

definition rstrip_slash :: "pystr \<Rightarrow> pystr" where
  "rstrip_slash s = rev (dropWhile (\<lambda>c. c = 47) (rev s))"

text \<open>\<open>os.path.basename\<close> (POSIX): what follows the last slash.\<close>

definition basename :: "pystr \<Rightarrow> pystr" where
  "basename p = rev (takeWhile (\<lambda>c. c \<noteq> 47) (rev p))"

text \<open>
  What \<open>resp.json()\<close> can return. A JSON number with a fraction or an exponent is a Python
  float; floats are kept abstract (type \<open>'f\<close>). A dict is an association list read with
  \<open>map_of\<close>.
\<close>

datatype 'f json =
    JNull
  | JBool bool
  | JInt int
  | JFloat 'f
  | JStr pystr
  | JList "'f json list"
  | JObj "(pystr \<times> 'f json) list"

text \<open>
  The built-ins of Python the loader relies on and that are not modelled further: the truth
  value of a float, \<open>x + 1\<close> on a float, and \<open>str(v)\<close> of a value that is not a string.
\<close>

record 'f py =
  float_truthy :: "'f \<Rightarrow> bool"
  float_add1 :: "'f \<Rightarrow> 'f"
  builtin_str :: "'f json \<Rightarrow> pystr"

datatype exn_class =
    ValueError | FileNotFoundError | OSError | RequestException | HTTPError
  | JSONDecodeError | AttributeError | TypeError

text \<open>An exception: its class and \<open>str(e)\<close>.\<close>

datatype exn = Exn (exn_class: exn_class) (exn_str: pystr)

fun type_name :: "'f json \<Rightarrow> pystr" where
  "type_name JNull = lit ''NoneType''"
| "type_name (JBool _) = lit ''bool''"
| "type_name (JInt _) = lit ''int''"
| "type_name (JFloat _) = lit ''float''"
| "type_name (JStr _) = lit ''str''"
| "type_name (JList _) = lit ''list''"
| "type_name (JObj _) = lit ''dict''"

fun is_none :: "'f json \<Rightarrow> bool" where
  "is_none JNull = True"
| "is_none _ = False"

text \<open>\<open>not v\<close> is \<open>\<not> truthy py v\<close>.\<close>

fun truthy :: "'f py \<Rightarrow> 'f json \<Rightarrow> bool" where
  "truthy py JNull = False"
| "truthy py (JBool b) = b"
| "truthy py (JInt i) = (i \<noteq> 0)"
| "truthy py (JFloat f) = float_truthy py f"
| "truthy py (JStr s) = (s \<noteq> [])"
| "truthy py (JList xs) = (xs \<noteq> [])"
| "truthy py (JObj kvs) = (kvs \<noteq> [])"

text \<open>\<open>d.get(k)\<close>: \<open>None\<close> when the key is absent.\<close>

definition dict_get :: "(pystr \<times> 'f json) list \<Rightarrow> pystr \<Rightarrow> 'f json" where
  "dict_get kvs k = (case map_of kvs k of None \<Rightarrow> JNull | Some v \<Rightarrow> v)"

text \<open>\<open>v.get\<close> on a value that is not a dict raises AttributeError.\<close>

definition no_attribute_get :: "'f json \<Rightarrow> exn" where
  "no_attribute_get v =
     Exn AttributeError (quoted (type_name v) @ lit '' object has no attribute '' @ quoted (lit ''get''))"

fun py_len :: "'f json \<Rightarrow> exn + int" where
  "py_len (JStr s) = Inr (int (length s))"
| "py_len (JList xs) = Inr (int (length xs))"
| "py_len (JObj kvs) = Inr (int (length (remdups (map fst kvs))))"
| "py_len v = Inl (Exn TypeError (lit ''object of type '' @ quoted (type_name v) @ lit '' has no len()''))"

text \<open>
  \<open>for x in v\<close>: the elements of a list, the one-character strings of a string, the keys
  of a dict.
\<close>

fun py_iter :: "'f json \<Rightarrow> exn + 'f json list" where
  "py_iter (JStr s) = Inr (map (\<lambda>c. JStr [c]) s)"
| "py_iter (JList xs) = Inr xs"
| "py_iter (JObj kvs) = Inr (map JStr (remdups (map fst kvs)))"
| "py_iter v = Inl (Exn TypeError (quoted (type_name v) @ lit '' object is not iterable''))"

text \<open>\<open>v + 1\<close>. A bool is an int in Python; code point 34 is the double quote.\<close>

fun add_one :: "'f py \<Rightarrow> 'f json \<Rightarrow> exn + 'f json" where
  "add_one py (JBool b) = Inr (JInt ((if b then 1 else 0) + 1))"
| "add_one py (JInt i) = Inr (JInt (i + 1))"
| "add_one py (JFloat f) = Inr (JFloat (float_add1 py f))"
| "add_one py (JStr s) =
     Inl (Exn TypeError (lit ''can only concatenate str (not '' @ [34] @ lit ''int'' @ [34] @ lit '') to str''))"
| "add_one py (JList xs) =
     Inl (Exn TypeError (lit ''can only concatenate list (not '' @ [34] @ lit ''int'' @ [34] @ lit '') to list''))"
| "add_one py v =
     Inl (Exn TypeError (lit ''unsupported operand type(s) for +: '' @ quoted (type_name v) @ lit '' and ''
                         @ quoted (lit ''int'')))"

section \<open>The loader\<close>

record loader =
  api_key :: pystr
  endpoint :: pystr
  file_path :: pystr
  model :: pystr
  timeout :: int
  include_image_base64 :: bool
  headers :: "(pystr \<times> pystr) list"

record 'f document =
  page_content :: pystr
  metadata :: "(pystr \<times> 'f json) list"

record 'f request =
  req_url :: pystr
  req_headers :: "(pystr \<times> pystr) list"
  req_json :: "'f json"
  req_timeout :: int

text \<open>
  A response of \<open>requests\<close>: the status line, the final URL, and what \<open>resp.json()\<close>
  returns or raises.
\<close>

record 'f response =
  status_code :: int
  reason :: pystr
  resp_url :: pystr
  json_result :: "exn + 'f json"

text \<open>
  The world outside the process: the file system, the standard library's base64 encoder
  (bytes to ASCII text) and the HTTP service behind \<open>requests.post\<close>, which raises
  (connection failure, timeout) or returns a response.
\<close>

record 'f env =
  path_exists :: "pystr \<Rightarrow> bool"
  read_bytes :: "pystr \<Rightarrow> exn + nat list"
  b64encode :: "nat list \<Rightarrow> pystr"
  post :: "'f request \<Rightarrow> exn + 'f response"

text \<open>The calls that reach outside the process, in the order they are made.\<close>

datatype 'f event = PathExists pystr | FileRead pystr | HttpPost "'f request"

fun is_network :: "'f event \<Rightarrow> bool" where
  "is_network (HttpPost _) = True"
| "is_network _ = False"

definition default_model :: pystr where
  "default_model = lit ''mistral-document-ai-2505''"

definition default_timeout :: int where
  "default_timeout = 300"

definition make_headers :: "pystr \<Rightarrow> (pystr \<times> pystr) list" where
  "make_headers key =
     [(lit ''Authorization'', lit ''Bearer '' @ key),
      (lit ''Content-Type'', lit ''application/json''),
      (lit ''Accept'', lit ''application/json''),
      (lit ''User-Agent'', lit ''OpenWebUI-AzureMistralLoader/1.0'')]"

text \<open>
  \<open>AzureMistralLoader.__init__\<close>: the three checks in the source's order, then the
  fields. The result is the exception raised or the constructed loader, with the outside
  calls made on the way.
\<close>

definition init ::
  "'f env \<Rightarrow> pystr \<Rightarrow> pystr \<Rightarrow> pystr \<Rightarrow> pystr \<Rightarrow> int \<Rightarrow> bool \<Rightarrow> (exn + loader) \<times> 'f event list" where
  "init env key ep path mdl tmo img =
     (if key = [] then (Inl (Exn ValueError (lit ''API key cannot be empty.'')), [])
      else if ep = [] then
        (Inl (Exn ValueError (lit ''Azure Mistral OCR endpoint cannot be empty.'')), [])
      else if \<not> path_exists env path then
        (Inl (Exn FileNotFoundError (lit ''File not found at '' @ path)), [PathExists path])
      else
        (Inr \<lparr>api_key = key, endpoint = rstrip_slash ep, file_path = path, model = mdl,
              timeout = tmo, include_image_base64 = img, headers = make_headers key\<rparr>,
         [PathExists path]))"

subsection \<open>Result mapping\<close>

definition no_pages_doc :: "loader \<Rightarrow> 'f document" where
  "no_pages_doc self =
     \<lparr>page_content = lit ''No text content found'',
      metadata = [(lit ''error'', JStr (lit ''no_pages'')),
                  (lit ''file_name'', JStr (basename (file_path self)))]\<rparr>"

definition no_valid_pages_doc :: "loader \<Rightarrow> int \<Rightarrow> 'f document" where
  "no_valid_pages_doc self total_pages =
     \<lparr>page_content = lit ''No valid text content found in document'',
      metadata = [(lit ''error'', JStr (lit ''no_valid_pages'')),
                  (lit ''total_pages'', JInt total_pages),
                  (lit ''file_name'', JStr (basename (file_path self)))]\<rparr>"

definition page_doc :: "loader \<Rightarrow> int \<Rightarrow> pystr \<Rightarrow> 'f json \<Rightarrow> 'f json \<Rightarrow> 'f document" where
  "page_doc self total_pages cleaned_content page_index page_label =
     \<lparr>page_content = cleaned_content,
      metadata = [(lit ''page'', page_index),
                  (lit ''page_label'', page_label),
                  (lit ''total_pages'', JInt total_pages),
                  (lit ''file_name'', JStr (basename (file_path self))),
                  (lit ''processing_engine'', JStr (lit ''mistral-ocr-azure'')),
                  (lit ''content_length'', JInt (int (length cleaned_content)))]\<rparr>"

text \<open>
  \<open>cleaned_content\<close> of the source: \<open>page_content.strip()\<close> for a string, otherwise
  \<open>str(page_content).strip()\<close>.
\<close>

fun cleaned :: "'f py \<Rightarrow> 'f json \<Rightarrow> pystr" where
  "cleaned py (JStr s) = strip s"
| "cleaned py v = strip (builtin_str py v)"

text \<open>
  One pass of the loop body of \<open>_process_results\<close>: the exception raised, \<open>None\<close> for
  \<open>continue\<close>, or the document appended.
\<close>

definition process_page :: "'f py \<Rightarrow> loader \<Rightarrow> int \<Rightarrow> 'f json \<Rightarrow> exn + 'f document option" where
  "process_page py self total_pages page_data =
     (case page_data of
        JObj kvs \<Rightarrow>
          (let page_content = dict_get kvs (lit ''markdown'');
               page_index = dict_get kvs (lit ''index'')
           in if is_none page_content \<or> is_none page_index then Inr None
              else let cleaned_content = cleaned py page_content
                   in if cleaned_content = [] then Inr None
                      else (case add_one py page_index of
                              Inl e \<Rightarrow> Inl e
                            | Inr page_label \<Rightarrow>
                                Inr (Some (page_doc self total_pages cleaned_content page_index page_label))))
      | _ \<Rightarrow> Inl (no_attribute_get page_data))"

text \<open>The loop, with \<open>documents\<close> as accumulator; an exception leaves the loop at once.\<close>

fun process_pages ::
  "'f py \<Rightarrow> loader \<Rightarrow> int \<Rightarrow> 'f json list \<Rightarrow> 'f document list \<Rightarrow> exn + 'f document list" where
  "process_pages py self total_pages [] documents = Inr documents"
| "process_pages py self total_pages (page_data # rest) documents =
     (case process_page py self total_pages page_data of
        Inl e \<Rightarrow> Inl e
      | Inr None \<Rightarrow> process_pages py self total_pages rest documents
      | Inr (Some d) \<Rightarrow> process_pages py self total_pages rest (documents @ [d]))"

text \<open>\<open>AzureMistralLoader._process_results\<close>.\<close>

definition process_results :: "'f py \<Rightarrow> loader \<Rightarrow> 'f json \<Rightarrow> exn + 'f document list" where
  "process_results py self ocr_response =
     (case ocr_response of
        JObj kvs \<Rightarrow>
          (let pages_data = dict_get kvs (lit ''pages'')
           in if \<not> truthy py pages_data then Inr [no_pages_doc self]
              else (case py_len pages_data of
                      Inl e \<Rightarrow> Inl e
                    | Inr total_pages \<Rightarrow>
                        (case py_iter pages_data of
                           Inl e \<Rightarrow> Inl e
                         | Inr entries \<Rightarrow>
                             (case process_pages py self total_pages entries [] of
                                Inl e \<Rightarrow> Inl e
                              | Inr documents \<Rightarrow>
                                  if documents = [] then Inr [no_valid_pages_doc self total_pages]
                                  else Inr documents))))
      | _ \<Rightarrow> Inl (no_attribute_get ocr_response))"

subsection \<open>load\<close>

text \<open>Decimal digits of a natural number, for the status code in an HTTP error text.\<close>

fun decimal :: "nat \<Rightarrow> pystr" where
  "decimal n = (if n < 10 then [48 + n] else decimal (n div 10) @ [48 + n mod 10])"

declare decimal.simps [simp del]

text \<open>
  \<open>Response.raise_for_status\<close> of \<open>requests\<close> builds an error text for a status from
  400 to 499 and from 500 to 599, and raises HTTPError when the text is not empty.
\<close>

definition http_error_msg :: "'f response \<Rightarrow> pystr" where
  "http_error_msg resp =
     (if 400 \<le> status_code resp \<and> status_code resp < 500 then
        decimal (nat (status_code resp)) @ lit '' Client Error: '' @ reason resp
          @ lit '' for url: '' @ resp_url resp
      else if 500 \<le> status_code resp \<and> status_code resp < 600 then
        decimal (nat (status_code resp)) @ lit '' Server Error: '' @ reason resp
          @ lit '' for url: '' @ resp_url resp
      else [])"

definition raise_for_status :: "'f response \<Rightarrow> exn option" where
  "raise_for_status resp =
     (if http_error_msg resp \<noteq> [] then Some (Exn HTTPError (http_error_msg resp)) else None)"

definition make_request :: "'f env \<Rightarrow> loader \<Rightarrow> nat list \<Rightarrow> 'f request" where
  "make_request env self file_bytes =
     (let b64 = b64encode env file_bytes;
          data_url = lit ''data:application/pdf;base64,'' @ b64;
          payload = JObj [(lit ''model'', JStr (model self)),
                          (lit ''document'',
                             JObj [(lit ''type'', JStr (lit ''document_url'')),
                                   (lit ''document_url'', JStr data_url)]),
                          (lit ''include_image_base64'', JBool (include_image_base64 self))];
          url = endpoint self @ lit ''/providers/mistral/azure/ocr''
      in \<lparr>req_url = url, req_headers = headers self, req_json = payload,
           req_timeout = timeout self\<rparr>)"

text \<open>
  The body of the \<open>try\<close> of \<open>load\<close>: the exception that leaves it or the documents it
  returns, with the outside calls made. The two log lines and the clock are left out.
\<close>

definition load_try :: "'f py \<Rightarrow> 'f env \<Rightarrow> loader \<Rightarrow> (exn + 'f document list) \<times> 'f event list" where
  "load_try py env self =
     (case read_bytes env (file_path self) of
        Inl e \<Rightarrow> (Inl e, [FileRead (file_path self)])
      | Inr file_bytes \<Rightarrow>
          (let req = make_request env self file_bytes;
               trace = [FileRead (file_path self), HttpPost req]
           in case post env req of
                Inl e \<Rightarrow> (Inl e, trace)
              | Inr resp \<Rightarrow>
                  (case raise_for_status resp of
                     Some e \<Rightarrow> (Inl e, trace)
                   | None \<Rightarrow>
                       (case json_result resp of
                          Inl e \<Rightarrow> (Inl e, trace)
                        | Inr ocr_response \<Rightarrow> (process_results py self ocr_response, trace)))))"

definition processing_failed_doc :: "loader \<Rightarrow> exn \<Rightarrow> 'f document" where
  "processing_failed_doc self e =
     \<lparr>page_content = lit ''Error during processing: '' @ exn_str e,
      metadata = [(lit ''error'', JStr (lit ''processing_failed'')),
                  (lit ''file_name'', JStr (basename (file_path self)))]\<rparr>"

text \<open>\<open>AzureMistralLoader.load\<close>: the \<open>try\<close> body under its \<open>except Exception\<close>.\<close>

definition load :: "'f py \<Rightarrow> 'f env \<Rightarrow> loader \<Rightarrow> 'f document list \<times> 'f event list" where
  "load py env self =
     (case load_try py env self of
        (Inl e, trace) \<Rightarrow> ([processing_failed_doc self e], trace)
      | (Inr docs, trace) \<Rightarrow> (docs, trace))"

text \<open>
  \<open>load\<close> with the exception channel of the \<open>try\<close> statement kept. The clause
  \<open>except Exception\<close> catches an exception whose class derives from \<open>Exception\<close>
  (ValueError, OSError and its subclass FileNotFoundError, the \<open>requests\<close> exceptions,
  which derive from OSError, the JSON decoding error, which derives from ValueError,
  AttributeError and TypeError all do); an exception it does not catch leaves \<open>load\<close>.
\<close>

fun derives_from_Exception :: "exn_class \<Rightarrow> bool" where
  "derives_from_Exception ValueError = True"
| "derives_from_Exception FileNotFoundError = True"
| "derives_from_Exception OSError = True"
| "derives_from_Exception RequestException = True"
| "derives_from_Exception HTTPError = True"
| "derives_from_Exception JSONDecodeError = True"
| "derives_from_Exception AttributeError = True"
| "derives_from_Exception TypeError = True"

definition load_outcome :: "'f py \<Rightarrow> 'f env \<Rightarrow> loader \<Rightarrow> exn + 'f document list" where
  "load_outcome py env self =
     (case fst (load_try py env self) of
        Inl e \<Rightarrow>
          if derives_from_Exception (exn_class e) then Inr [processing_failed_doc self e]
          else Inl e
      | Inr docs \<Rightarrow> Inr docs)"

section \<open>Vocabulary of the properties\<close>

text \<open>The two fields of a page entry the loop reads (\<open>None\<close> for an entry that is no dict).\<close>

definition entry_markdown :: "'f json \<Rightarrow> 'f json" where
  "entry_markdown p = (case p of JObj kvs \<Rightarrow> dict_get kvs (lit ''markdown'') | _ \<Rightarrow> JNull)"

definition entry_index :: "'f json \<Rightarrow> 'f json" where
  "entry_index p = (case p of JObj kvs \<Rightarrow> dict_get kvs (lit ''index'') | _ \<Rightarrow> JNull)"

fun is_dict :: "'f json \<Rightarrow> bool" where
  "is_dict (JObj _) = True"
| "is_dict _ = False"


text \<open>
  An entry is filtered out when its markdown or its index is missing (or null), or when
  its markdown trims to the empty string.
\<close>

definition skipped :: "'f py \<Rightarrow> 'f json \<Rightarrow> bool" where
  "skipped py p \<longleftrightarrow>
     is_none (entry_markdown p) \<or> is_none (entry_index p) \<or> cleaned py (entry_markdown p) = []"

text \<open>What one entry contributes to \<open>documents\<close> when the loop body does not raise.\<close>

definition page_result :: "'f py \<Rightarrow> loader \<Rightarrow> int \<Rightarrow> 'f json \<Rightarrow> 'f document option" where
  "page_result py self t p = (case process_page py self t p of Inl e \<Rightarrow> None | Inr r \<Rightarrow> r)"

text \<open>
  What every returned document satisfies: the content is not empty; a page document (no
  \<open>error\<close> key) carries trimmed text, with no white space at either end, and its length
  as \<open>content_length\<close>; a placeholder carries the message of its kind, for
  \<open>processing_failed\<close> the fixed prefix followed by the text of the exception.
\<close>

definition content_invariant :: "'f document \<Rightarrow> bool" where
  "content_invariant d \<longleftrightarrow>
     page_content d \<noteq> [] \<and>
     (case map_of (metadata d) (lit ''error'') of
        None \<Rightarrow>
          strip (page_content d) = page_content d \<and>
          \<not> isspace (hd (page_content d)) \<and> \<not> isspace (last (page_content d)) \<and>
          map_of (metadata d) (lit ''content_length'') = Some (JInt (int (length (page_content d))))
      | Some k \<Rightarrow>
          k = JStr (lit ''no_pages'') \<and> page_content d = lit ''No text content found'' \<or>
          k = JStr (lit ''no_valid_pages'') \<and>
            page_content d = lit ''No valid text content found in document'' \<or>
          k = JStr (lit ''processing_failed'') \<and>
            take (length (lit ''Error during processing: '')) (page_content d) =
              lit ''Error during processing: '')"

subsection \<open>Concrete instances\<close>

text \<open>
  A sample interpretation of the built-ins (floats as \<open>unit\<close>; \<open>str\<close> of an int and of a
  bool as Python prints them) and a sample loader, file system and service, for the
  concrete instances of the theorems.
\<close>

fun demo_str :: "unit json \<Rightarrow> pystr" where
  "demo_str (JInt i) = (if i < 0 then 45 # decimal (nat (- i)) else decimal (nat i))"
| "demo_str (JBool b) = (if b then lit ''True'' else lit ''False'')"
| "demo_str JNull = lit ''None''"
| "demo_str (JStr s) = s"
| "demo_str (JFloat f) = lit ''0.5''"
| "demo_str (JList xs) = lit ''[...]''"
| "demo_str (JObj kvs) = lit ''{...}''"

definition demo_py :: "unit py" where
  "demo_py = \<lparr>float_truthy = (\<lambda>f. True), float_add1 = (\<lambda>f. f), builtin_str = demo_str\<rparr>"

definition demo_loader :: loader where
  "demo_loader =
     \<lparr>api_key = lit ''secret'', endpoint = lit ''https://ocr.example'',
      file_path = lit ''/data/in/report.pdf'', model = default_model, timeout = default_timeout,
      include_image_base64 = False, headers = make_headers (lit ''secret'')\<rparr>"

definition demo_env :: "(exn + nat list) \<Rightarrow> (exn + unit response) \<Rightarrow> unit env" where
  "demo_env file answer =
     \<lparr>path_exists = (\<lambda>p. p = lit ''/data/in/report.pdf''),
      read_bytes = (\<lambda>p. file),
      b64encode = (\<lambda>bs. lit ''JVBERi0='') ,
      post = (\<lambda>req. answer)\<rparr>"

definition demo_response :: "int \<Rightarrow> (exn + unit json) \<Rightarrow> unit response" where
  "demo_response status body =
     \<lparr>status_code = status, reason = lit ''Status'',
      resp_url = lit ''https://ocr.example/providers/mistral/azure/ocr'', json_result = body\<rparr>"

definition demo_page :: "int \<Rightarrow> unit json \<Rightarrow> unit json" where
  "demo_page i md = JObj [(lit ''index'', JInt i), (lit ''markdown'', md)]"

section \<open>Strings\<close>

lemma rev_split: "rev (dropWhile P (rev xs)) @ rev (takeWhile P (rev xs)) = xs"
proof -
  have "rev (takeWhile P (rev xs) @ dropWhile P (rev xs)) = xs"
    by (simp only: takeWhile_dropWhile_id rev_rev_ident)
  then show ?thesis by (simp only: rev_append)
qed

lemma last_dropWhile: "dropWhile P xs \<noteq> [] \<Longrightarrow> last (dropWhile P xs) = last xs"
  by (induction xs) (auto split: if_splits)

lemma dropWhile_nonempty_hd: "dropWhile P xs \<noteq> [] \<Longrightarrow> \<not> P (hd (dropWhile P xs))"
  by (simp add: hd_dropWhile)

lemma strip_last: "strip s \<noteq> [] \<Longrightarrow> \<not> isspace (last (strip s))"
  unfolding strip_def by (simp add: last_rev hd_dropWhile)

lemma strip_hd: "strip s \<noteq> [] \<Longrightarrow> \<not> isspace (hd (strip s))"
proof -
  assume a: "strip s \<noteq> []"
  let ?t = "dropWhile isspace s"
  from a have ne: "dropWhile isspace (rev ?t) \<noteq> []" by (simp add: strip_def)
  have t: "?t \<noteq> []"
  proof
    assume "?t = []"
    then have "dropWhile isspace (rev ?t) = []" by (simp only: rev.simps dropWhile.simps)
    with ne show False by (rule notE)
  qed
  have "hd (strip s) = last (dropWhile isspace (rev ?t))"
    using ne by (simp add: strip_def hd_rev)
  also have "\<dots> = last (rev ?t)" using ne by (rule last_dropWhile)
  also have "\<dots> = hd ?t" using t by (simp add: last_rev)
  finally show ?thesis using dropWhile_nonempty_hd[OF t] by simp
qed

lemma strip_decomp:
  "s = takeWhile isspace s @ strip s @ rev (takeWhile isspace (rev (dropWhile isspace s)))"
proof -
  have "strip s @ rev (takeWhile isspace (rev (dropWhile isspace s))) = dropWhile isspace s"
    unfolding strip_def by (rule rev_split)
  then show ?thesis by simp
qed

lemma basename_decomp: "rev (dropWhile (\<lambda>c. c \<noteq> 47) (rev p)) @ basename p = p"
  unfolding basename_def by (rule rev_split)

lemma basename_no_slash: "47 \<notin> set (basename p)"
  unfolding basename_def using set_takeWhileD by fastforce

lemma basename_dir:
  "dropWhile (\<lambda>c. c \<noteq> 47) (rev (p::pystr)) = [] \<or>
   last (rev (dropWhile (\<lambda>c. c \<noteq> 47) (rev p))) = 47"
  using hd_dropWhile[of "\<lambda>c. c \<noteq> (47::nat)" "rev p"] by (auto simp: last_rev)

lemma takeWhile_eq_replicate:
  "takeWhile (\<lambda>c. c = a) xs = replicate (length (takeWhile (\<lambda>c. c = a) xs)) a"
  by (induction xs) auto

lemma rstrip_slash_decomp:
  "rstrip_slash ep @ replicate (length (takeWhile (\<lambda>c. c = 47) (rev ep))) 47 = ep"
proof -
  let ?k = "takeWhile (\<lambda>c. c = (47::nat)) (rev ep)"
  have "rev ?k = replicate (length ?k) 47"
    using takeWhile_eq_replicate[of 47 "rev ep"] by (metis rev_replicate)
  then show ?thesis unfolding rstrip_slash_def using rev_split[of "\<lambda>c. c = 47" ep] by simp
qed

lemma rstrip_slash_last: "rstrip_slash ep \<noteq> [] \<Longrightarrow> last (rstrip_slash ep) \<noteq> 47"
  unfolding rstrip_slash_def using hd_dropWhile[of "\<lambda>c. c = (47::nat)" "rev ep"]
  by (simp add: last_rev)

section \<open>Construction\<close>

text \<open>
  C3. Construction raises exactly when the API key is empty, the endpoint is empty or the
  file does not exist; the exception is a ValueError or a FileNotFoundError; no network
  call is made while constructing; and a constructed loader stores the arguments as given,
  except the endpoint, which is the given endpoint without its trailing slashes, and the
  fixed header set.
\<close>

theorem init_validation:
  "(isl (fst (init env key ep path mdl tmo img)) \<longleftrightarrow>
      key = [] \<or> ep = [] \<or> \<not> path_exists env path) \<and>
   (\<forall>e. fst (init env key ep path mdl tmo img) = Inl e \<longrightarrow>
      exn_class e = ValueError \<or> exn_class e = FileNotFoundError) \<and>
   (\<forall>ev\<in>set (snd (init env key ep path mdl tmo img)). \<not> is_network ev) \<and>
   (\<forall>self. fst (init env key ep path mdl tmo img) = Inr self \<longrightarrow>
      api_key self = key \<and> file_path self = path \<and> model self = mdl \<and> timeout self = tmo \<and>
      include_image_base64 self = img \<and> headers self = make_headers key \<and>
      endpoint self = rstrip_slash ep \<and>
      (\<exists>k. endpoint self @ replicate k 47 = ep) \<and>
      (endpoint self = [] \<or> last (endpoint self) \<noteq> 47))"
proof -
  have ep: "\<exists>k. rstrip_slash ep @ replicate k 47 = ep"
    using rstrip_slash_decomp[of ep] by blast
  have lastep: "rstrip_slash ep = [] \<or> last (rstrip_slash ep) \<noteq> 47"
    using rstrip_slash_last[of ep] by blast
  show ?thesis
    using ep lastep by (auto simp: init_def)
qed

theorem init_validation_witness:
  "fst (init (demo_env (Inr []) (Inl (Exn RequestException []))) (lit ''secret'')
          (lit ''https://ocr.example//'') (lit ''/data/in/report.pdf'') default_model
          default_timeout False) = Inr demo_loader \<and>
   isl (fst (init (demo_env (Inr []) (Inl (Exn RequestException []))) (lit ''secret'')
          (lit ''https://ocr.example//'') (lit ''/missing.pdf'') default_model
          default_timeout False))"
  using init_validation[of "demo_env (Inr []) (Inl (Exn RequestException []))" "lit ''secret''"
          "lit ''https://ocr.example//''" "lit ''/data/in/report.pdf''" default_model
          default_timeout False]
        init_validation[of "demo_env (Inr []) (Inl (Exn RequestException []))" "lit ''secret''"
          "lit ''https://ocr.example//''" "lit ''/missing.pdf''" default_model
          default_timeout False]
  by (simp add: init_def demo_env_def demo_loader_def lit_def rstrip_slash_def)

section \<open>Result mapping\<close>

lemma dropWhile_id: "xs \<noteq> [] \<Longrightarrow> \<not> P (hd xs) \<Longrightarrow> dropWhile P xs = xs"
  by (cases xs) auto

lemma strip_strip: "strip (strip s) = strip s"
proof (cases "strip s = []")
  case True
  have "strip [] = []" by (simp add: strip_def)
  with True show ?thesis by simp
next
  case False
  have 1: "dropWhile isspace (strip s) = strip s"
    using False strip_hd[OF False] by (rule dropWhile_id)
  have "\<not> isspace (hd (rev (strip s)))"
    using False strip_last[OF False] by (simp add: hd_rev)
  then have 2: "dropWhile isspace (rev (strip s)) = rev (strip s)"
    using False by (simp add: dropWhile_id)
  show ?thesis
    unfolding strip_def[of "strip s"] 1 2 by simp
qed

lemma cleaned_strip: "\<exists>s. cleaned py v = strip s"
  by (cases v) auto

lemma http_error_msg_nonempty:
  "400 \<le> status_code resp \<Longrightarrow> status_code resp < 600 \<Longrightarrow> http_error_msg resp \<noteq> []"
  by (auto simp: http_error_msg_def lit_def)

lemma raise_for_status_iff:
  "raise_for_status resp =
     (if 400 \<le> status_code resp \<and> status_code resp < 600
      then Some (Exn HTTPError (http_error_msg resp)) else None)"
  using http_error_msg_nonempty[of resp]
  by (auto simp: raise_for_status_def) (auto simp: http_error_msg_def split: if_splits)

lemma process_page_dict:
  "process_page py self t p = Inr r \<Longrightarrow> is_dict p"
  by (cases p) (auto simp: process_page_def)

lemma process_page_skipped:
  "is_dict p \<Longrightarrow> skipped py p \<Longrightarrow> process_page py self t p = Inr None"
  by (cases p) (auto simp: process_page_def skipped_def entry_markdown_def entry_index_def Let_def)

lemma process_page_kept:
  "is_dict p \<Longrightarrow> \<not> skipped py p \<Longrightarrow>
   process_page py self t p =
     (case add_one py (entry_index p) of
        Inl e \<Rightarrow> Inl e
      | Inr label \<Rightarrow> Inr (Some (page_doc self t (cleaned py (entry_markdown p)) (entry_index p) label)))"
  by (cases p)
     (auto simp: process_page_def skipped_def entry_markdown_def entry_index_def Let_def
           split: sum.splits)

lemma process_page_None_iff:
  "process_page py self t p = Inr None \<longleftrightarrow> is_dict p \<and> skipped py p"
proof
  assume a: "process_page py self t p = Inr None"
  then have d: "is_dict p" by (rule process_page_dict)
  have "skipped py p"
  proof (rule ccontr)
    assume "\<not> skipped py p"
    from process_page_kept[OF d this, of self t] a show False
      by (auto split: sum.splits)
  qed
  with d show "is_dict p \<and> skipped py p" by simp
next
  assume "is_dict p \<and> skipped py p"
  then show "process_page py self t p = Inr None" by (simp add: process_page_skipped)
qed

lemma process_page_Some:
  "process_page py self t p = Inr (Some d) \<Longrightarrow>
   is_dict p \<and> \<not> skipped py p \<and>
   (\<exists>label. add_one py (entry_index p) = Inr label \<and>
            d = page_doc self t (cleaned py (entry_markdown p)) (entry_index p) label)"
proof -
  assume a: "process_page py self t p = Inr (Some d)"
  then have d: "is_dict p" by (rule process_page_dict)
  have ns: "\<not> skipped py p"
  proof
    assume "skipped py p"
    with d a show False by (simp add: process_page_skipped)
  qed
  from process_page_kept[OF d ns, of self t] a
  have "\<exists>label. add_one py (entry_index p) = Inr label \<and>
            d = page_doc self t (cleaned py (entry_markdown p)) (entry_index p) label"
    by (auto split: sum.splits)
  with d ns show ?thesis by simp
qed

lemma process_pages_map_filter:
  "\<forall>p\<in>set ps. process_page py self t p = Inr (g p) \<Longrightarrow>
   process_pages py self t ps acc = Inr (acc @ List.map_filter g ps)"
proof (induction ps arbitrary: acc)
  case Nil
  then show ?case by (simp add: map_filter_simps)
next
  case (Cons p ps)
  then show ?case by (cases "g p") (simp_all add: map_filter_simps)
qed

lemma process_pages_Inr_all:
  "process_pages py self t ps acc = Inr docs \<Longrightarrow>
   \<forall>p\<in>set ps. \<exists>r. process_page py self t p = Inr r"
proof (induction ps arbitrary: acc)
  case Nil
  then show ?case by simp
next
  case (Cons p ps)
  then show ?case by (auto split: sum.splits option.splits)
qed

lemma process_pages_append:
  "process_pages py self t (xs @ ys) acc =
     (case process_pages py self t xs acc of
        Inl e \<Rightarrow> Inl e
      | Inr docs \<Rightarrow> process_pages py self t ys docs)"
  by (induction xs arbitrary: acc) (auto split: sum.splits option.splits)

lemma process_pages_Inr:
  assumes "process_pages py self t ps acc = Inr docs"
  shows "docs = acc @ List.map_filter (page_result py self t) ps"
proof -
  from process_pages_Inr_all[OF assms]
  have "\<forall>p\<in>set ps. process_page py self t p = Inr (page_result py self t p)"
    by (auto simp: page_result_def)
  from process_pages_map_filter[OF this, of acc] assms show ?thesis by simp
qed

lemma process_pages_survivors:
  assumes "process_pages py self t ps acc = Inr docs"
  shows "\<exists>new. docs = acc @ new \<and>
           list_all2 (\<lambda>d p. process_page py self t p = Inr (Some d)) new
             (filter (\<lambda>p. \<not> skipped py p) ps)"
  using assms
proof (induction ps arbitrary: acc)
  case Nil
  then show ?case by simp
next
  case (Cons p ps)
  show ?case
  proof (cases "process_page py self t p")
    case (Inl e)
    with Cons.prems show ?thesis by simp
  next
    case (Inr r)
    show ?thesis
    proof (cases r)
      case None
      with Inr have sk: "skipped py p" by (simp add: process_page_None_iff)
      from Cons.prems Inr None have "process_pages py self t ps acc = Inr docs" by simp
      from Cons.IH[OF this] sk show ?thesis by simp
    next
      case (Some d)
      with Inr have ns: "\<not> skipped py p" using process_page_Some by blast
      from Cons.prems Inr Some have "process_pages py self t ps (acc @ [d]) = Inr docs" by simp
      from Cons.IH[OF this] obtain new where
        "docs = (acc @ [d]) @ new"
        "list_all2 (\<lambda>d p. process_page py self t p = Inr (Some d)) new
             (filter (\<lambda>p. \<not> skipped py p) ps)" by blast
      with ns Inr Some show ?thesis by simp
    qed
  qed
qed

lemma process_results_list:
  "dict_get resp (lit ''pages'') = JList ps \<Longrightarrow> ps \<noteq> [] \<Longrightarrow>
   process_results py self (JObj resp) =
     (case process_pages py self (int (length ps)) ps [] of
        Inl e \<Rightarrow> Inl e
      | Inr documents \<Rightarrow>
          if documents = [] then Inr [no_valid_pages_doc self (int (length ps))]
          else Inr documents)"
  by (simp add: process_results_def)

lemma process_results_falsy:
  "\<not> truthy py (dict_get resp (lit ''pages'')) \<Longrightarrow>
   process_results py self (JObj resp) = Inr [no_pages_doc self]"
  by (simp add: process_results_def)

text \<open>
  C4. When the response has no \<open>pages\<close> key, or its value is empty (any value Python
  takes for false), the result mapping returns exactly one document: its content is
  \<open>No text content found\<close>, its metadata has exactly the keys \<open>error\<close> (with value
  \<open>no_pages\<close>) and \<open>file_name\<close> (the base name of the input file), and so none of
  \<open>page\<close>, \<open>total_pages\<close>, \<open>content_length\<close>.
\<close>

theorem no_pages_placeholder:
  assumes "map_of resp (lit ''pages'') = None \<or>
           (\<exists>v. map_of resp (lit ''pages'') = Some v \<and> \<not> truthy py v)"
  shows "\<exists>d. process_results py self (JObj resp) = Inr [d] \<and>
           page_content d = lit ''No text content found'' \<and>
           map fst (metadata d) = [lit ''error'', lit ''file_name''] \<and>
           map_of (metadata d) (lit ''error'') = Some (JStr (lit ''no_pages'')) \<and>
           map_of (metadata d) (lit ''file_name'') = Some (JStr (basename (file_path self))) \<and>
           map_of (metadata d) (lit ''page'') = None \<and>
           map_of (metadata d) (lit ''total_pages'') = None \<and>
           map_of (metadata d) (lit ''content_length'') = None"
proof -
  from assms have "\<not> truthy py (dict_get resp (lit ''pages''))"
    by (auto simp: dict_get_def)
  then have "process_results py self (JObj resp) = Inr [no_pages_doc self]"
    by (rule process_results_falsy)
  then show ?thesis
    by (simp add: no_pages_doc_def lit_def)
qed

theorem no_pages_placeholder_witness:
  "process_results demo_py demo_loader (JObj [(lit ''pages'', JList [])]) =
     Inr [\<lparr>page_content = lit ''No text content found'',
           metadata = [(lit ''error'', JStr (lit ''no_pages'')),
                       (lit ''file_name'', JStr (lit ''report.pdf''))]\<rparr>]"
  using no_pages_placeholder[of "[(lit ''pages'', JList [])]" demo_py demo_loader]
  by (simp add: process_results_def dict_get_def no_pages_doc_def demo_loader_def basename_def
        lit_def)

text \<open>
  C5. For a response with a non-empty list of pages: an entry (a dict) whose markdown or
  index is missing or null, or whose markdown trims to the empty string, makes the loop
  body \<open>continue\<close>, and the loop over a list with that entry gives what it gives over the
  list without it; and when every entry is filtered out this way, the result mapping
  returns the single placeholder \<open>No valid text content found in document\<close> with metadata
  \<open>error = no_valid_pages\<close>, \<open>total_pages\<close> the number of entries, and \<open>file_name\<close>.
\<close>

theorem filtered_pages:
  assumes "dict_get resp (lit ''pages'') = JList ps" and "ps \<noteq> []"
  shows "(\<forall>p t xs ys acc. is_dict p \<and> skipped py p \<longrightarrow>
            process_page py self t p = Inr None \<and>
            process_pages py self t (xs @ p # ys) acc = process_pages py self t (xs @ ys) acc) \<and>
         ((\<forall>p\<in>set ps. is_dict p \<and> skipped py p) \<longrightarrow>
            process_results py self (JObj resp) =
              Inr [\<lparr>page_content = lit ''No valid text content found in document'',
                    metadata = [(lit ''error'', JStr (lit ''no_valid_pages'')),
                                (lit ''total_pages'', JInt (int (length ps))),
                                (lit ''file_name'', JStr (basename (file_path self)))]\<rparr>])"
proof (intro conjI allI impI)
  fix p :: "'a json" and t xs ys acc
  assume a: "is_dict p \<and> skipped py p"
  then show none: "process_page py self t p = Inr None" by (simp add: process_page_skipped)
  show "process_pages py self t (xs @ p # ys) acc = process_pages py self t (xs @ ys) acc"
    by (simp add: process_pages_append none split: sum.splits)
next
  assume all: "\<forall>p\<in>set ps. is_dict p \<and> skipped py p"
  then have "\<forall>p\<in>set ps. process_page py self (int (length ps)) p = Inr ((\<lambda>p. None) p)"
    by (simp add: process_page_skipped)
  from process_pages_map_filter[OF this, of "[]"]
  have "process_pages py self (int (length ps)) ps [] = Inr []"
    by (simp add: map_filter_def)
  with assms show "process_results py self (JObj resp) =
              Inr [\<lparr>page_content = lit ''No valid text content found in document'',
                    metadata = [(lit ''error'', JStr (lit ''no_valid_pages'')),
                                (lit ''total_pages'', JInt (int (length ps))),
                                (lit ''file_name'', JStr (basename (file_path self)))]\<rparr>]"
    by (simp add: process_results_list no_valid_pages_doc_def)
qed

theorem filtered_pages_witness:
  "process_results demo_py demo_loader
     (JObj [(lit ''pages'',
        JList [demo_page 0 (JStr (lit ''  '')), JObj [(lit ''markdown'', JStr (lit ''text''))],
               JObj [(lit ''index'', JInt 2)]])]) =
   Inr [\<lparr>page_content = lit ''No valid text content found in document'',
         metadata = [(lit ''error'', JStr (lit ''no_valid_pages'')),
                     (lit ''total_pages'', JInt 3),
                     (lit ''file_name'', JStr (lit ''report.pdf''))]\<rparr>] \<and>
   process_pages demo_py demo_loader 3
     ([demo_page 0 (JStr (lit ''a''))] @ demo_page 1 (JStr (lit '' '')) # [demo_page 2 (JStr (lit ''b''))]) [] =
   process_pages demo_py demo_loader 3
     ([demo_page 0 (JStr (lit ''a''))] @ [demo_page 2 (JStr (lit ''b''))]) []"
  using filtered_pages[of "[(lit ''pages'',
        JList [demo_page 0 (JStr (lit ''  '')), JObj [(lit ''markdown'', JStr (lit ''text''))],
               JObj [(lit ''index'', JInt 2)]])]"
        "[demo_page 0 (JStr (lit ''  '')), JObj [(lit ''markdown'', JStr (lit ''text''))],
               JObj [(lit ''index'', JInt 2)]]" demo_py demo_loader]
  by (simp add: dict_get_def demo_page_def skipped_def entry_markdown_def entry_index_def
        strip_def isspace_def lit_def demo_loader_def basename_def process_page_def)

lemma map_filter_all_Some: "List.map_filter (\<lambda>x. Some (f x)) xs = map f xs"
  by (induction xs) (simp_all add: map_filter_simps)

text \<open>
  C2, amended. For a response whose pages are a list of \<open>N \<ge> 1\<close> entries, entry \<open>i\<close> with
  index \<open>i\<close> and a markdown string that does not trim to the empty string, the result
  mapping returns exactly \<open>N\<close> documents, document \<open>i\<close> with the trimmed markdown of entry
  \<open>i\<close> as content, \<open>page = i\<close>, \<open>page_label = i + 1\<close>, \<open>total_pages = N\<close> and
  \<open>content_length\<close> the length of the trimmed markdown.
\<close>

theorem well_formed_pages:
  assumes pages: "dict_get resp (lit ''pages'') = JList ps" and ne: "ps \<noteq> []"
    and wf: "\<forall>i<length ps. is_dict (ps ! i) \<and> entry_index (ps ! i) = JInt (int i) \<and>
                entry_markdown (ps ! i) = JStr (md i) \<and> strip (md i) \<noteq> []"
  shows "\<exists>docs. process_results py self (JObj resp) = Inr docs \<and> length docs = length ps \<and>
           (\<forall>i<length ps.
              docs ! i =
                \<lparr>page_content = strip (md i),
                 metadata = [(lit ''page'', JInt (int i)),
                             (lit ''page_label'', JInt (int i + 1)),
                             (lit ''total_pages'', JInt (int (length ps))),
                             (lit ''file_name'', JStr (basename (file_path self))),
                             (lit ''processing_engine'', JStr (lit ''mistral-ocr-azure'')),
                             (lit ''content_length'', JInt (int (length (strip (md i)))))]\<rparr>)"
proof -
  let ?t = "int (length ps)"
  define g :: "'a json \<Rightarrow> 'a document" where
    "g p = (case entry_index p of
              JInt k \<Rightarrow> page_doc self ?t (cleaned py (entry_markdown p)) (JInt k) (JInt (k + 1))
            | _ \<Rightarrow> no_pages_doc self)" for p
  have each: "process_page py self ?t p = Inr (Some (g p))" if "p \<in> set ps" for p
  proof -
    from that obtain i where i: "i < length ps" "p = ps ! i" by (auto simp: in_set_conv_nth)
    with wf have p: "is_dict p" "entry_index p = JInt (int i)" "entry_markdown p = JStr (md i)"
      "strip (md i) \<noteq> []" by auto
    then have "\<not> skipped py p" by (simp add: skipped_def)
    from process_page_kept[OF p(1) this, of self ?t] p show ?thesis
      by (simp add: g_def)
  qed
  then have "\<forall>p\<in>set ps. process_page py self ?t p = Inr ((\<lambda>p. Some (g p)) p)" by simp
  from process_pages_map_filter[OF this, of "[]"]
  have loop: "process_pages py self ?t ps [] = Inr (map g ps)"
    by (simp add: map_filter_all_Some)
  from ne have "map g ps \<noteq> []" by simp
  with loop pages ne have res: "process_results py self (JObj resp) = Inr (map g ps)"
    by (simp add: process_results_list)
  have "map g ps ! i =
                \<lparr>page_content = strip (md i),
                 metadata = [(lit ''page'', JInt (int i)),
                             (lit ''page_label'', JInt (int i + 1)),
                             (lit ''total_pages'', JInt (int (length ps))),
                             (lit ''file_name'', JStr (basename (file_path self))),
                             (lit ''processing_engine'', JStr (lit ''mistral-ocr-azure'')),
                             (lit ''content_length'', JInt (int (length (strip (md i)))))]\<rparr>"
    if "i < length ps" for i
    using that wf by (simp add: g_def page_doc_def)
  with res show ?thesis by simp
qed

theorem well_formed_pages_witness:
  "process_results demo_py demo_loader
     (JObj [(lit ''pages'',
        JList [demo_page 0 (JStr (lit '' Title '')), demo_page 1 (JStr (lit ''Body''))])]) =
   Inr [\<lparr>page_content = lit ''Title'',
         metadata = [(lit ''page'', JInt 0), (lit ''page_label'', JInt 1),
                     (lit ''total_pages'', JInt 2),
                     (lit ''file_name'', JStr (lit ''report.pdf'')),
                     (lit ''processing_engine'', JStr (lit ''mistral-ocr-azure'')),
                     (lit ''content_length'', JInt 5)]\<rparr>,
        \<lparr>page_content = lit ''Body'',
         metadata = [(lit ''page'', JInt 1), (lit ''page_label'', JInt 2),
                     (lit ''total_pages'', JInt 2),
                     (lit ''file_name'', JStr (lit ''report.pdf'')),
                     (lit ''processing_engine'', JStr (lit ''mistral-ocr-azure'')),
                     (lit ''content_length'', JInt 4)]\<rparr>]"
proof -
  let ?ps = "[demo_page 0 (JStr (lit '' Title '')), demo_page 1 (JStr (lit ''Body''))]"
  let ?md = "\<lambda>i::nat. if i = 0 then lit '' Title '' else lit ''Body''"
  have wf: "\<forall>i<length ?ps. is_dict (?ps ! i) \<and> entry_index (?ps ! i) = JInt (int i) \<and>
                entry_markdown (?ps ! i) = JStr (?md i) \<and> strip (?md i) \<noteq> []"
    by (simp add: less_Suc_eq demo_page_def entry_index_def entry_markdown_def dict_get_def
          lit_def strip_def isspace_def)
  have pages: "dict_get [(lit ''pages'', JList ?ps)] (lit ''pages'') = JList ?ps"
    by (simp add: dict_get_def)
  from well_formed_pages[OF pages _ wf, of demo_py demo_loader]
  obtain docs where d: "process_results demo_py demo_loader (JObj [(lit ''pages'', JList ?ps)]) = Inr docs"
    "length docs = 2"
    "\<forall>i<2. docs ! i =
                \<lparr>page_content = strip (?md i),
                 metadata = [(lit ''page'', JInt (int i)),
                             (lit ''page_label'', JInt (int i + 1)),
                             (lit ''total_pages'', JInt 2),
                             (lit ''file_name'', JStr (basename (file_path demo_loader))),
                             (lit ''processing_engine'', JStr (lit ''mistral-ocr-azure'')),
                             (lit ''content_length'', JInt (int (length (strip (?md i)))))]\<rparr>"
    by auto
  from d(2) obtain a b where ab: "docs = [a, b]"
    by (cases docs; cases "tl docs"; cases "tl (tl docs)") auto
  from d(3) have "docs ! 0 = \<lparr>page_content = strip (?md 0),
                 metadata = [(lit ''page'', JInt (int 0)),
                             (lit ''page_label'', JInt (int 0 + 1)),
                             (lit ''total_pages'', JInt 2),
                             (lit ''file_name'', JStr (basename (file_path demo_loader))),
                             (lit ''processing_engine'', JStr (lit ''mistral-ocr-azure'')),
                             (lit ''content_length'', JInt (int (length (strip (?md 0)))))]\<rparr>"
    by simp
  moreover from d(3) have "docs ! 1 = \<lparr>page_content = strip (?md 1),
                 metadata = [(lit ''page'', JInt (int 1)),
                             (lit ''page_label'', JInt (int 1 + 1)),
                             (lit ''total_pages'', JInt 2),
                             (lit ''file_name'', JStr (basename (file_path demo_loader))),
                             (lit ''processing_engine'', JStr (lit ''mistral-ocr-azure'')),
                             (lit ''content_length'', JInt (int (length (strip (?md 1)))))]\<rparr>"
    by simp
  ultimately show ?thesis
    using d(1) ab
    by (simp add: lit_def strip_def isspace_def demo_loader_def basename_def)
qed

text \<open>
  C2 as stated includes \<open>N = 0\<close>: there the mapping returns one document, the \<open>no_pages\<close>
  placeholder, not zero documents.
\<close>

theorem empty_pages_counterexample:
  "process_results demo_py demo_loader (JObj [(lit ''pages'', JList [])]) =
     Inr [no_pages_doc demo_loader] \<and>
   length [no_pages_doc demo_loader :: unit document] \<noteq> length ([] :: unit json list)"
  by (simp add: process_results_def dict_get_def)

lemma survivors_fields:
  "list_all2 (\<lambda>d p. process_page py self t p = Inr (Some d)) ds qs \<Longrightarrow>
   map page_content ds = map (\<lambda>p. cleaned py (entry_markdown p)) qs \<and>
   map (\<lambda>d. map_of (metadata d) (lit ''page'')) ds = map (\<lambda>p. Some (entry_index p)) qs"
proof (induction ds qs rule: list_all2_induct)
  case Nil
  then show ?case by simp
next
  case (Cons d ds q qs)
  from process_page_Some[OF Cons.hyps(1)] obtain label where
    "d = page_doc self t (cleaned py (entry_markdown q)) (entry_index q) label" by blast
  then have "page_content d = cleaned py (entry_markdown q)"
    "map_of (metadata d) (lit ''page'') = Some (entry_index q)"
    by (simp_all add: page_doc_def)
  with Cons.IH show ?case by simp
qed

text \<open>
  C8. Whenever the result mapping returns for a response whose pages are a list, the
  documents the loop builds are, one for one and in the same order, the entries that are
  not filtered out: document \<open>k\<close> is what the loop body yields for the \<open>k\<close>-th surviving
  entry, its content is that entry's trimmed markdown and its \<open>page\<close> is that entry's
  index, whatever the indices are. The mapping returns this list as it is unless it is
  empty, in which case it returns a single placeholder.
\<close>

theorem response_order_kept:
  assumes pages: "dict_get resp (lit ''pages'') = JList ps"
    and res: "process_results py self (JObj resp) = Inr docs"
  shows "\<exists>documents.
           process_pages py self (int (length ps)) ps [] = Inr documents \<and>
           list_all2 (\<lambda>d p. process_page py self (int (length ps)) p = Inr (Some d)) documents
             (filter (\<lambda>p. \<not> skipped py p) ps) \<and>
           map page_content documents =
             map (\<lambda>p. cleaned py (entry_markdown p)) (filter (\<lambda>p. \<not> skipped py p) ps) \<and>
           map (\<lambda>d. map_of (metadata d) (lit ''page'')) documents =
             map (\<lambda>p. Some (entry_index p)) (filter (\<lambda>p. \<not> skipped py p) ps) \<and>
           (if documents = []
            then docs = [no_pages_doc self] \<or> docs = [no_valid_pages_doc self (int (length ps))]
            else docs = documents)"
proof -
  let ?t = "int (length ps)"
  have "\<exists>documents. process_pages py self ?t ps [] = Inr documents \<and>
          (if documents = []
           then docs = [no_pages_doc self] \<or> docs = [no_valid_pages_doc self ?t]
           else docs = documents)"
  proof (cases "ps = []")
    case True
    with pages res show ?thesis by (simp add: process_results_def)
  next
    case False
    from process_results_list[OF pages False, of py self] res show ?thesis
      by (auto split: sum.splits if_splits)
  qed
  then obtain documents where d: "process_pages py self ?t ps [] = Inr documents"
    "if documents = []
     then docs = [no_pages_doc self] \<or> docs = [no_valid_pages_doc self ?t]
     else docs = documents" by blast
  from process_pages_survivors[OF d(1)]
  have l: "list_all2 (\<lambda>d p. process_page py self ?t p = Inr (Some d)) documents
             (filter (\<lambda>p. \<not> skipped py p) ps)" by simp
  from survivors_fields[OF l] d l show ?thesis by blast
qed

theorem response_order_kept_witness:
  "process_results demo_py demo_loader
     (JObj [(lit ''pages'',
        JList [demo_page 2 (JStr (lit ''third'')), demo_page 0 (JStr (lit '' '')),
               demo_page 0 (JStr (lit ''first'')), demo_page 2 (JStr (lit ''again''))])]) =
   Inr [page_doc demo_loader 4 (lit ''third'') (JInt 2) (JInt 3),
        page_doc demo_loader 4 (lit ''first'') (JInt 0) (JInt 1),
        page_doc demo_loader 4 (lit ''again'') (JInt 2) (JInt 3)] \<and>
   filter (\<lambda>p. \<not> skipped demo_py p)
     [demo_page 2 (JStr (lit ''third'')), demo_page 0 (JStr (lit '' '')),
      demo_page 0 (JStr (lit ''first'')), demo_page 2 (JStr (lit ''again''))] =
   [demo_page 2 (JStr (lit ''third'')), demo_page 0 (JStr (lit ''first'')),
    demo_page 2 (JStr (lit ''again''))]"
proof -
  let ?ps = "[demo_page 2 (JStr (lit ''third'')), demo_page 0 (JStr (lit '' '')),
               demo_page 0 (JStr (lit ''first'')), demo_page 2 (JStr (lit ''again''))]"
  have r: "process_results demo_py demo_loader (JObj [(lit ''pages'', JList ?ps)]) =
    Inr [page_doc demo_loader 4 (lit ''third'') (JInt 2) (JInt 3),
        page_doc demo_loader 4 (lit ''first'') (JInt 0) (JInt 1),
        page_doc demo_loader 4 (lit ''again'') (JInt 2) (JInt 3)]"
    by (simp add: process_results_def process_page_def dict_get_def demo_page_def lit_def
          strip_def isspace_def)
  have p: "dict_get [(lit ''pages'', JList ?ps)] (lit ''pages'') = JList ?ps"
    by (simp add: dict_get_def)
  have f: "filter (\<lambda>p. \<not> skipped demo_py p) ?ps =
    [demo_page 2 (JStr (lit ''third'')), demo_page 0 (JStr (lit ''first'')),
     demo_page 2 (JStr (lit ''again''))]"
    by (simp add: skipped_def entry_markdown_def entry_index_def dict_get_def demo_page_def
          lit_def strip_def isspace_def)
  from response_order_kept[OF p r] r f show ?thesis by simp
qed



section \<open>load\<close>

lemma page_result_Some:
  "page_result py self t p = Some d \<Longrightarrow> process_page py self t p = Inr (Some d)"
  by (auto simp: page_result_def split: sum.splits)

lemma in_map_filter: "y \<in> set (List.map_filter f xs) \<Longrightarrow> \<exists>x\<in>set xs. f x = Some y"
  by (auto simp: map_filter_def)

lemma process_pages_docs:
  assumes "process_pages py self t ps [] = Inr docs" and "d \<in> set docs"
  shows "\<exists>c idx label. d = page_doc self t c idx label \<and> c \<noteq> [] \<and> strip c = c"
proof -
  from process_pages_Inr[OF assms(1)] assms(2)
  obtain p where "page_result py self t p = Some d"
    by (auto dest: in_map_filter)
  then have "process_page py self t p = Inr (Some d)" by (rule page_result_Some)
  from process_page_Some[OF this] obtain label where
    ns: "\<not> skipped py p"
    and d: "d = page_doc self t (cleaned py (entry_markdown p)) (entry_index p) label" by blast
  from ns have ne: "cleaned py (entry_markdown p) \<noteq> []" by (simp add: skipped_def)
  obtain s where "cleaned py (entry_markdown p) = strip s" using cleaned_strip by blast
  then have "strip (cleaned py (entry_markdown p)) = cleaned py (entry_markdown p)"
    by (simp add: strip_strip)
  with d ne show ?thesis by blast
qed

lemma process_results_docs:
  assumes "process_results py self r = Inr docs"
  shows "docs = [no_pages_doc self] \<or> (\<exists>n. docs = [no_valid_pages_doc self n]) \<or>
         (docs \<noteq> [] \<and>
          (\<forall>d\<in>set docs. \<exists>t c idx label. d = page_doc self t c idx label \<and> c \<noteq> [] \<and> strip c = c))"
proof (cases r)
  case (JObj kvs)
  show ?thesis
  proof (cases "truthy py (dict_get kvs (lit ''pages''))")
    case False
    with assms JObj show ?thesis by (simp add: process_results_def)
  next
    case True
    with assms JObj obtain t entries documents where
      loop: "process_pages py self t entries [] = Inr documents"
      and docs: "docs = (if documents = [] then [no_valid_pages_doc self t] else documents)"
      by (auto simp: process_results_def Let_def split: sum.splits if_splits)
    show ?thesis
    proof (cases "documents = []")
      case True
      with docs show ?thesis by auto
    next
      case False
      with docs have "docs = documents" by simp
      with False process_pages_docs[OF loop] show ?thesis by blast
    qed
  qed
qed (use assms in \<open>simp_all add: process_results_def\<close>)

lemma load_fst:
  "fst (load py env self) =
     (case fst (load_try py env self) of
        Inl e \<Rightarrow> [processing_failed_doc self e]
      | Inr docs \<Rightarrow> docs)"
  by (simp add: load_def split: prod.splits sum.splits)

lemma load_snd: "snd (load py env self) = snd (load_try py env self)"
  by (simp add: load_def split: prod.splits sum.splits)

lemma load_try_Inr:
  "fst (load_try py env self) = Inr docs \<Longrightarrow> \<exists>r. process_results py self r = Inr docs"
  by (auto simp: load_try_def Let_def split: sum.splits option.splits)

lemma derives_from_Exception_all: "derives_from_Exception c"
  by (cases c) simp_all

lemma load_outcome_load: "load_outcome py env self = Inr (fst (load py env self))"
  by (simp add: load_outcome_def load_fst derives_from_Exception_all split: sum.splits)

lemma load_try_Inl:
  assumes "read_bytes env (file_path self) = Inl e \<or>
     (\<exists>bs. read_bytes env (file_path self) = Inr bs \<and>
        post env (make_request env self bs) = Inl e) \<or>
     (\<exists>bs resp. read_bytes env (file_path self) = Inr bs \<and>
        post env (make_request env self bs) = Inr resp \<and>
        400 \<le> status_code resp \<and> status_code resp < 600 \<and>
        e = Exn HTTPError (http_error_msg resp)) \<or>
     (\<exists>bs resp. read_bytes env (file_path self) = Inr bs \<and>
        post env (make_request env self bs) = Inr resp \<and>
        \<not> (400 \<le> status_code resp \<and> status_code resp < 600) \<and>
        json_result resp = Inl e) \<or>
     (\<exists>bs resp ocr_response. read_bytes env (file_path self) = Inr bs \<and>
        post env (make_request env self bs) = Inr resp \<and>
        \<not> (400 \<le> status_code resp \<and> status_code resp < 600) \<and>
        json_result resp = Inr ocr_response \<and>
        process_results py self ocr_response = Inl e)"
  shows "fst (load_try py env self) = Inl e"
  using assms by (auto simp: load_try_def Let_def raise_for_status_iff)

lemma load_try_success:
  assumes "read_bytes env (file_path self) = Inr bs"
    and "post env (make_request env self bs) = Inr resp"
    and "\<not> (400 \<le> status_code resp \<and> status_code resp < 600)"
    and "json_result resp = Inr ocr_response"
  shows "fst (load_try py env self) = process_results py self ocr_response"
  using assms by (auto simp: load_try_def Let_def raise_for_status_iff)

lemma process_results_tags:
  assumes "process_results py self r = Inr docs"
  shows "docs \<noteq> [] \<and>
         (docs = [\<lparr>page_content = lit ''No text content found'',
                   metadata = [(lit ''error'', JStr (lit ''no_pages'')),
                               (lit ''file_name'', JStr (basename (file_path self)))]\<rparr>] \<or>
          (\<exists>n. docs = [\<lparr>page_content = lit ''No valid text content found in document'',
                        metadata = [(lit ''error'', JStr (lit ''no_valid_pages'')),
                                    (lit ''total_pages'', JInt n),
                                    (lit ''file_name'', JStr (basename (file_path self)))]\<rparr>]) \<or>
          (\<forall>d\<in>set docs. page_content d \<noteq> [] \<and> map_of (metadata d) (lit ''error'') = None \<and>
                         map_of (metadata d) (lit ''page'') \<noteq> None))"
proof -
  have page: "page_content d \<noteq> [] \<and> map_of (metadata d) (lit ''error'') = None \<and>
              map_of (metadata d) (lit ''page'') \<noteq> None"
    if "d = page_doc self t c idx label" and "c \<noteq> []"
    for d :: "'a document" and t c idx label
    using that by (simp add: page_doc_def lit_def)
  from process_results_docs[OF assms]
  consider "docs = [no_pages_doc self]" | n where "docs = [no_valid_pages_doc self n]"
    | "docs \<noteq> []" "\<forall>d\<in>set docs. \<exists>t c idx label. d = page_doc self t c idx label \<and> c \<noteq> [] \<and> strip c = c"
    by blast
  then show ?thesis
  proof cases
    case 1
    then show ?thesis by (simp add: no_pages_doc_def)
  next
    case 2
    then show ?thesis by (simp add: no_valid_pages_doc_def)
  next
    case 3
    from 3(2) page have "\<forall>d\<in>set docs. page_content d \<noteq> [] \<and>
        map_of (metadata d) (lit ''error'') = None \<and> map_of (metadata d) (lit ''page'') \<noteq> None"
      by blast
    with 3(1) show ?thesis by blast
  qed
qed

text \<open>
  C1. \<open>load\<close> never raises: for every loader, file system and service its outcome is a
  returned list, never an exception. Every failure after construction is returned as one
  placeholder document: when reading the file raises, when \<open>requests.post\<close> raises
  (network failure, timeout), when the status is from 400 to 599, when decoding the JSON
  body raises, or when the result mapping raises, \<open>load\<close> returns exactly the document
  with content \<open>Error during processing: \<close> followed by the text of the exception and
  metadata \<open>error = processing_failed\<close>, \<open>file_name\<close>. When no step fails, \<open>load\<close>
  returns what the result mapping returned. The returned list is never empty: it is one
  of the three placeholders, or a list of page documents, which have content, a \<open>page\<close>
  and no \<open>error\<close>.
\<close>

theorem load_never_raises:
  "load_outcome py env self = Inr (fst (load py env self)) \<and>
   fst (load py env self) \<noteq> [] \<and>
   (\<forall>e. (read_bytes env (file_path self) = Inl e \<or>
         (\<exists>bs. read_bytes env (file_path self) = Inr bs \<and>
            post env (make_request env self bs) = Inl e) \<or>
         (\<exists>bs resp. read_bytes env (file_path self) = Inr bs \<and>
            post env (make_request env self bs) = Inr resp \<and>
            400 \<le> status_code resp \<and> status_code resp < 600 \<and>
            e = Exn HTTPError (http_error_msg resp)) \<or>
         (\<exists>bs resp. read_bytes env (file_path self) = Inr bs \<and>
            post env (make_request env self bs) = Inr resp \<and>
            \<not> (400 \<le> status_code resp \<and> status_code resp < 600) \<and>
            json_result resp = Inl e) \<or>
         (\<exists>bs resp ocr_response. read_bytes env (file_path self) = Inr bs \<and>
            post env (make_request env self bs) = Inr resp \<and>
            \<not> (400 \<le> status_code resp \<and> status_code resp < 600) \<and>
            json_result resp = Inr ocr_response \<and>
            process_results py self ocr_response = Inl e)) \<longrightarrow>
        load_outcome py env self =
          Inr [\<lparr>page_content = lit ''Error during processing: '' @ exn_str e,
                metadata = [(lit ''error'', JStr (lit ''processing_failed'')),
                            (lit ''file_name'', JStr (basename (file_path self)))]\<rparr>]) \<and>
   (\<forall>bs resp ocr_response docs.
        read_bytes env (file_path self) = Inr bs \<and>
        post env (make_request env self bs) = Inr resp \<and>
        \<not> (400 \<le> status_code resp \<and> status_code resp < 600) \<and>
        json_result resp = Inr ocr_response \<and>
        process_results py self ocr_response = Inr docs \<longrightarrow>
        load_outcome py env self = Inr docs) \<and>
   ((\<exists>e. fst (load py env self) =
           [\<lparr>page_content = lit ''Error during processing: '' @ exn_str e,
             metadata = [(lit ''error'', JStr (lit ''processing_failed'')),
                         (lit ''file_name'', JStr (basename (file_path self)))]\<rparr>]) \<or>
    fst (load py env self) =
      [\<lparr>page_content = lit ''No text content found'',
        metadata = [(lit ''error'', JStr (lit ''no_pages'')),
                    (lit ''file_name'', JStr (basename (file_path self)))]\<rparr>] \<or>
    (\<exists>n. fst (load py env self) =
           [\<lparr>page_content = lit ''No valid text content found in document'',
             metadata = [(lit ''error'', JStr (lit ''no_valid_pages'')),
                         (lit ''total_pages'', JInt n),
                         (lit ''file_name'', JStr (basename (file_path self)))]\<rparr>]) \<or>
    (\<forall>d\<in>set (fst (load py env self)).
        page_content d \<noteq> [] \<and> map_of (metadata d) (lit ''error'') = None \<and>
        map_of (metadata d) (lit ''page'') \<noteq> None))"
proof -
  have kinds: "fst (load py env self) \<noteq> [] \<and>
    ((\<exists>e. fst (load py env self) =
           [\<lparr>page_content = lit ''Error during processing: '' @ exn_str e,
             metadata = [(lit ''error'', JStr (lit ''processing_failed'')),
                         (lit ''file_name'', JStr (basename (file_path self)))]\<rparr>]) \<or>
    fst (load py env self) =
      [\<lparr>page_content = lit ''No text content found'',
        metadata = [(lit ''error'', JStr (lit ''no_pages'')),
                    (lit ''file_name'', JStr (basename (file_path self)))]\<rparr>] \<or>
    (\<exists>n. fst (load py env self) =
           [\<lparr>page_content = lit ''No valid text content found in document'',
             metadata = [(lit ''error'', JStr (lit ''no_valid_pages'')),
                         (lit ''total_pages'', JInt n),
                         (lit ''file_name'', JStr (basename (file_path self)))]\<rparr>]) \<or>
    (\<forall>d\<in>set (fst (load py env self)).
        page_content d \<noteq> [] \<and> map_of (metadata d) (lit ''error'') = None \<and>
        map_of (metadata d) (lit ''page'') \<noteq> None))"
  proof (cases "fst (load_try py env self)")
    case (Inl e)
    then have "fst (load py env self) =
           [\<lparr>page_content = lit ''Error during processing: '' @ exn_str e,
             metadata = [(lit ''error'', JStr (lit ''processing_failed'')),
                         (lit ''file_name'', JStr (basename (file_path self)))]\<rparr>]"
      by (simp add: load_fst processing_failed_doc_def)
    then show ?thesis by (intro conjI disjI1 exI[of _ e]) simp_all
  next
    case (Inr docs)
    then have l: "fst (load py env self) = docs" by (simp add: load_fst)
    from load_try_Inr[OF Inr] obtain r where "process_results py self r = Inr docs" by blast
    from process_results_tags[OF this] show ?thesis unfolding l by blast
  qed
  have failure: "load_outcome py env self =
          Inr [\<lparr>page_content = lit ''Error during processing: '' @ exn_str e,
                metadata = [(lit ''error'', JStr (lit ''processing_failed'')),
                            (lit ''file_name'', JStr (basename (file_path self)))]\<rparr>]"
    if "read_bytes env (file_path self) = Inl e \<or>
         (\<exists>bs. read_bytes env (file_path self) = Inr bs \<and>
            post env (make_request env self bs) = Inl e) \<or>
         (\<exists>bs resp. read_bytes env (file_path self) = Inr bs \<and>
            post env (make_request env self bs) = Inr resp \<and>
            400 \<le> status_code resp \<and> status_code resp < 600 \<and>
            e = Exn HTTPError (http_error_msg resp)) \<or>
         (\<exists>bs resp. read_bytes env (file_path self) = Inr bs \<and>
            post env (make_request env self bs) = Inr resp \<and>
            \<not> (400 \<le> status_code resp \<and> status_code resp < 600) \<and>
            json_result resp = Inl e) \<or>
         (\<exists>bs resp ocr_response. read_bytes env (file_path self) = Inr bs \<and>
            post env (make_request env self bs) = Inr resp \<and>
            \<not> (400 \<le> status_code resp \<and> status_code resp < 600) \<and>
            json_result resp = Inr ocr_response \<and>
            process_results py self ocr_response = Inl e)" for e
  proof -
    from that have "fst (load_try py env self) = Inl e" by (rule load_try_Inl)
    then show ?thesis
      by (simp add: load_outcome_def derives_from_Exception_all processing_failed_doc_def)
  qed
  have success: "load_outcome py env self = Inr docs"
    if "read_bytes env (file_path self) = Inr bs \<and>
        post env (make_request env self bs) = Inr resp \<and>
        \<not> (400 \<le> status_code resp \<and> status_code resp < 600) \<and>
        json_result resp = Inr ocr_response \<and>
        process_results py self ocr_response = Inr docs" for bs resp ocr_response docs
  proof -
    from that have "fst (load_try py env self) = Inr docs"
      using load_try_success[of env self bs resp ocr_response py] by simp
    then show ?thesis by (simp add: load_outcome_def)
  qed
  show ?thesis
    by (intro conjI allI impI;
        (rule load_outcome_load | rule kinds[THEN conjunct1] | rule kinds[THEN conjunct2]
         | erule failure | erule success))
qed

theorem load_never_raises_witness:
  "load_outcome demo_py
     (demo_env (Inr [37, 80, 68, 70]) (Inl (Exn RequestException (lit ''Connection refused''))))
     demo_loader =
     Inr [\<lparr>page_content = lit ''Error during processing: Connection refused'',
           metadata = [(lit ''error'', JStr (lit ''processing_failed'')),
                       (lit ''file_name'', JStr (lit ''report.pdf''))]\<rparr>] \<and>
   load_outcome demo_py
     (demo_env (Inr [37, 80, 68, 70]) (Inr (demo_response 404 (Inr (JObj [])))))
     demo_loader =
     Inr [\<lparr>page_content =
            lit ''Error during processing: 404 Client Error: Status for url: https://ocr.example/providers/mistral/azure/ocr'',
           metadata = [(lit ''error'', JStr (lit ''processing_failed'')),
                       (lit ''file_name'', JStr (lit ''report.pdf''))]\<rparr>] \<and>
   load_outcome demo_py
     (demo_env (Inr [37, 80, 68, 70])
        (Inr (demo_response 200 (Inl (Exn JSONDecodeError (lit ''Expecting value''))))))
     demo_loader =
     Inr [\<lparr>page_content = lit ''Error during processing: Expecting value'',
           metadata = [(lit ''error'', JStr (lit ''processing_failed'')),
                       (lit ''file_name'', JStr (lit ''report.pdf''))]\<rparr>] \<and>
   load_outcome demo_py
     (demo_env (Inr [37, 80, 68, 70]) (Inr (demo_response 200 (Inr (JList [])))))
     demo_loader =
     Inr [\<lparr>page_content = lit ''Error during processing: '' @ quoted (lit ''list'')
                            @ lit '' object has no attribute '' @ quoted (lit ''get''),
           metadata = [(lit ''error'', JStr (lit ''processing_failed'')),
                       (lit ''file_name'', JStr (lit ''report.pdf''))]\<rparr>] \<and>
   load_outcome demo_py
     (demo_env (Inr [37, 80, 68, 70])
        (Inr (demo_response 200
           (Inr (JObj [(lit ''pages'', JList [demo_page 0 (JStr (lit ''Hello''))])])))))
     demo_loader =
     Inr [\<lparr>page_content = lit ''Hello'',
           metadata = [(lit ''page'', JInt 0), (lit ''page_label'', JInt 1),
                       (lit ''total_pages'', JInt 1),
                       (lit ''file_name'', JStr (lit ''report.pdf'')),
                       (lit ''processing_engine'', JStr (lit ''mistral-ocr-azure'')),
                       (lit ''content_length'', JInt 5)]\<rparr>]"
proof -
  let ?file = "Inr [37, 80, 68, 70] :: exn + nat list"
  have refused: "load_outcome demo_py
     (demo_env ?file (Inl (Exn RequestException (lit ''Connection refused'')))) demo_loader =
     Inr [\<lparr>page_content = lit ''Error during processing: ''
                            @ exn_str (Exn RequestException (lit ''Connection refused'')),
           metadata = [(lit ''error'', JStr (lit ''processing_failed'')),
                       (lit ''file_name'', JStr (basename (file_path demo_loader)))]\<rparr>]"
    by (rule load_never_raises[THEN conjunct2, THEN conjunct2, THEN conjunct1, THEN spec, THEN mp])
       (simp add: demo_env_def)
  have status: "load_outcome demo_py
     (demo_env ?file (Inr (demo_response 404 (Inr (JObj []))))) demo_loader =
     Inr [\<lparr>page_content = lit ''Error during processing: ''
                            @ exn_str (Exn HTTPError (http_error_msg (demo_response 404 (Inr (JObj [])) :: unit response))),
           metadata = [(lit ''error'', JStr (lit ''processing_failed'')),
                       (lit ''file_name'', JStr (basename (file_path demo_loader)))]\<rparr>]"
    by (rule load_never_raises[THEN conjunct2, THEN conjunct2, THEN conjunct1, THEN spec, THEN mp])
       (simp add: demo_env_def demo_response_def)
  have json: "load_outcome demo_py
     (demo_env ?file (Inr (demo_response 200 (Inl (Exn JSONDecodeError (lit ''Expecting value''))))))
     demo_loader =
     Inr [\<lparr>page_content = lit ''Error during processing: ''
                            @ exn_str (Exn JSONDecodeError (lit ''Expecting value'')),
           metadata = [(lit ''error'', JStr (lit ''processing_failed'')),
                       (lit ''file_name'', JStr (basename (file_path demo_loader)))]\<rparr>]"
    by (rule load_never_raises[THEN conjunct2, THEN conjunct2, THEN conjunct1, THEN spec, THEN mp])
       (simp add: demo_env_def demo_response_def)
  have mapping: "load_outcome demo_py
     (demo_env ?file (Inr (demo_response 200 (Inr (JList []))))) demo_loader =
     Inr [\<lparr>page_content = lit ''Error during processing: ''
                            @ exn_str (no_attribute_get (JList [] :: unit json)),
           metadata = [(lit ''error'', JStr (lit ''processing_failed'')),
                       (lit ''file_name'', JStr (basename (file_path demo_loader)))]\<rparr>]"
    by (rule load_never_raises[THEN conjunct2, THEN conjunct2, THEN conjunct1, THEN spec, THEN mp])
       (simp add: demo_env_def demo_response_def process_results_def)
  let ?body = "JObj [(lit ''pages'', JList [demo_page 0 (JStr (lit ''Hello''))])] :: unit json"
  have served: "read_bytes (demo_env ?file (Inr (demo_response 200 (Inr ?body)))) (file_path demo_loader) =
      Inr [37, 80, 68, 70] \<and>
    post (demo_env ?file (Inr (demo_response 200 (Inr ?body))))
      (make_request (demo_env ?file (Inr (demo_response 200 (Inr ?body)))) demo_loader [37, 80, 68, 70]) =
      Inr (demo_response 200 (Inr ?body)) \<and>
    \<not> (400 \<le> status_code (demo_response 200 (Inr ?body)) \<and>
       status_code (demo_response 200 (Inr ?body)) < 600) \<and>
    json_result (demo_response 200 (Inr ?body)) = Inr ?body \<and>
    process_results demo_py demo_loader ?body =
      Inr [page_doc demo_loader 1 (lit ''Hello'') (JInt 0) (JInt 1)]"
    by (simp add: demo_env_def demo_response_def process_results_def process_page_def
          dict_get_def demo_page_def strip_def isspace_def lit_def)
  have pages: "load_outcome demo_py (demo_env ?file (Inr (demo_response 200 (Inr ?body))))
     demo_loader =
     Inr [page_doc demo_loader 1 (lit ''Hello'') (JInt 0) (JInt 1)]"
    by (rule load_never_raises[THEN conjunct2, THEN conjunct2, THEN conjunct2, THEN conjunct1,
              THEN spec, THEN spec, THEN spec, THEN spec, THEN mp, OF served])
  have base: "basename (file_path demo_loader) = lit ''report.pdf''"
    by (simp add: demo_loader_def basename_def lit_def)
  have msg: "http_error_msg (demo_response 404 (Inr (JObj [])) :: unit response) =
    lit ''404 Client Error: Status for url: https://ocr.example/providers/mistral/azure/ocr''"
    by (simp add: http_error_msg_def demo_response_def decimal.simps lit_def)
  show ?thesis
    unfolding refused status json mapping pages base msg
    by (simp add: lit_def page_doc_def no_attribute_get_def base)
qed

lemma load_try_trace:
  "length (filter is_network (snd (load_try py env self))) \<le> 1"
  by (simp add: load_try_def Let_def split: sum.splits option.splits)

text \<open>
  C6, amended. When reading the file raises, or \<open>requests.post\<close> raises (network failure,
  timeout), or the response has a status from 400 to 599, or decoding the JSON body raises,
  or the result mapping raises, \<open>load\<close> returns exactly one document: its content is
  \<open>Error during processing: \<close> followed by the text of the exception, its metadata is
  \<open>error = processing_failed\<close> and \<open>file_name\<close> the base name of the input file. In
  every run \<open>load\<close> makes at most one HTTP call.
\<close>

theorem failure_placeholder:
  assumes "read_bytes env (file_path self) = Inl e \<or>
     (\<exists>bs. read_bytes env (file_path self) = Inr bs \<and>
        post env (make_request env self bs) = Inl e) \<or>
     (\<exists>bs resp. read_bytes env (file_path self) = Inr bs \<and>
        post env (make_request env self bs) = Inr resp \<and>
        400 \<le> status_code resp \<and> status_code resp < 600 \<and>
        e = Exn HTTPError (http_error_msg resp)) \<or>
     (\<exists>bs resp. read_bytes env (file_path self) = Inr bs \<and>
        post env (make_request env self bs) = Inr resp \<and>
        \<not> (400 \<le> status_code resp \<and> status_code resp < 600) \<and>
        json_result resp = Inl e) \<or>
     (\<exists>bs resp ocr_response. read_bytes env (file_path self) = Inr bs \<and>
        post env (make_request env self bs) = Inr resp \<and>
        \<not> (400 \<le> status_code resp \<and> status_code resp < 600) \<and>
        json_result resp = Inr ocr_response \<and>
        process_results py self ocr_response = Inl e)"
  shows "fst (load py env self) =
           [\<lparr>page_content = lit ''Error during processing: '' @ exn_str e,
             metadata = [(lit ''error'', JStr (lit ''processing_failed'')),
                         (lit ''file_name'', JStr (basename (file_path self)))]\<rparr>] \<and>
         length (filter is_network (snd (load py env self))) \<le> 1"
proof -
  from assms have "fst (load_try py env self) = Inl e"
    by (auto simp: load_try_def Let_def raise_for_status_iff)
  then have "fst (load py env self) = [processing_failed_doc self e]"
    by (simp add: load_fst)
  then show ?thesis
    using load_try_trace[of py env self]
    by (simp add: processing_failed_doc_def load_snd)
qed

theorem failure_placeholder_witness:
  "fst (load demo_py (demo_env (Inr [37, 80, 68, 70]) (Inr (demo_response 500 (Inr (JObj [])))))
          demo_loader) =
     [\<lparr>page_content =
         lit ''Error during processing: 500 Server Error: Status for url: https://ocr.example/providers/mistral/azure/ocr'',
       metadata = [(lit ''error'', JStr (lit ''processing_failed'')),
                   (lit ''file_name'', JStr (lit ''report.pdf''))]\<rparr>] \<and>
   fst (load demo_py (demo_env (Inl (Exn OSError (lit ''Permission denied''))) (Inr (demo_response 200 (Inr (JObj [])))))
          demo_loader) =
     [\<lparr>page_content = lit ''Error during processing: Permission denied'',
       metadata = [(lit ''error'', JStr (lit ''processing_failed'')),
                   (lit ''file_name'', JStr (lit ''report.pdf''))]\<rparr>]"
  using failure_placeholder[where py = demo_py and self = demo_loader
          and env = "demo_env (Inr [37, 80, 68, 70]) (Inr (demo_response 500 (Inr (JObj []))))"
          and e = "Exn HTTPError (http_error_msg (demo_response 500 (Inr (JObj [])) :: unit response))"]
        failure_placeholder[where py = demo_py and self = demo_loader
          and env = "demo_env (Inl (Exn OSError (lit ''Permission denied''))) (Inr (demo_response 200 (Inr (JObj []))))"
          and e = "Exn OSError (lit ''Permission denied'')"]
  by (simp add: demo_env_def demo_response_def http_error_msg_def decimal.simps lit_def
        demo_loader_def basename_def)

text \<open>
  C6 as stated covers every status outside 200 to 299. \<open>raise_for_status\<close> lets a status
  below 400 pass: a response with status 300 and a JSON body is mapped like a success.
\<close>

theorem redirect_status_counterexample:
  "\<not> (200 \<le> status_code (demo_response 300 (Inr (JObj [(lit ''pages'', JList [demo_page 0 (JStr (lit ''Hello''))])]))) \<and>
      status_code (demo_response 300 (Inr (JObj [(lit ''pages'', JList [demo_page 0 (JStr (lit ''Hello''))])]))) < 300) \<and>
   fst (load demo_py
          (demo_env (Inr [37, 80, 68, 70])
             (Inr (demo_response 300 (Inr (JObj [(lit ''pages'', JList [demo_page 0 (JStr (lit ''Hello''))])])))))
          demo_loader) =
     [page_doc demo_loader 1 (lit ''Hello'') (JInt 0) (JInt 1)] \<and>
   map_of (metadata (page_doc demo_loader 1 (lit ''Hello'') (JInt 0) (JInt 1) :: unit document))
     (lit ''error'') = None"
  by (simp add: load_def load_try_def demo_env_def demo_response_def raise_for_status_def
        http_error_msg_def process_results_def process_page_def dict_get_def demo_page_def
        strip_def isspace_def lit_def page_doc_def)

lemma file_name_no_pages:
  "map_of (metadata (no_pages_doc self)) (lit ''file_name'') = Some (JStr (basename (file_path self)))"
  by (simp add: no_pages_doc_def lit_def)

lemma file_name_no_valid_pages:
  "map_of (metadata (no_valid_pages_doc self n)) (lit ''file_name'') =
     Some (JStr (basename (file_path self)))"
  by (simp add: no_valid_pages_doc_def lit_def)

lemma file_name_processing_failed:
  "map_of (metadata (processing_failed_doc self e)) (lit ''file_name'') =
     Some (JStr (basename (file_path self)))"
  by (simp add: processing_failed_doc_def lit_def)

lemma file_name_page_doc:
  "map_of (metadata (page_doc self t c idx label)) (lit ''file_name'') =
     Some (JStr (basename (file_path self)))"
  by (simp add: page_doc_def lit_def)

lemma process_results_file_name:
  assumes "process_results py self r = Inr docs" and "d \<in> set docs"
  shows "map_of (metadata d) (lit ''file_name'') = Some (JStr (basename (file_path self)))"
  using process_results_docs[OF assms(1)] assms(2)
  by (auto simp: file_name_no_pages file_name_no_valid_pages file_name_page_doc)

lemma load_file_name:
  assumes "d \<in> set (fst (load py env self))"
  shows "map_of (metadata d) (lit ''file_name'') = Some (JStr (basename (file_path self)))"
proof (cases "fst (load_try py env self)")
  case (Inl e)
  with assms show ?thesis by (simp add: load_fst file_name_processing_failed)
next
  case (Inr docs)
  from load_try_Inr[OF Inr] obtain r where "process_results py self r = Inr docs" by blast
  moreover from Inr assms have "d \<in> set docs" by (simp add: load_fst)
  ultimately show ?thesis by (rule process_results_file_name)
qed

text \<open>
  C7. Every document returned by \<open>load\<close>, and every document returned by the result
  mapping, has \<open>file_name\<close> equal to the base name of the configured path: the part after
  the last slash, which contains no slash.
\<close>

theorem file_name_is_basename:
  "(\<forall>d\<in>set (fst (load py env self)).
      map_of (metadata d) (lit ''file_name'') = Some (JStr (basename (file_path self)))) \<and>
   (\<forall>r docs. process_results py self r = Inr docs \<longrightarrow>
      (\<forall>d\<in>set docs.
         map_of (metadata d) (lit ''file_name'') = Some (JStr (basename (file_path self))))) \<and>
   47 \<notin> set (basename (file_path self)) \<and>
   (\<exists>dir. dir @ basename (file_path self) = file_path self \<and> (dir = [] \<or> last dir = 47))"
proof -
  have "\<exists>dir. dir @ basename (file_path self) = file_path self \<and> (dir = [] \<or> last dir = 47)"
    using basename_decomp[of "file_path self"] basename_dir[of "file_path self"]
    by (metis rev_is_Nil_conv)
  then show ?thesis
    using load_file_name process_results_file_name basename_no_slash by blast
qed

theorem file_name_is_basename_witness:
  "map_of (metadata (hd (fst (load demo_py
       (demo_env (Inr [37, 80, 68, 70])
          (Inr (demo_response 200 (Inr (JObj [(lit ''pages'', JList [demo_page 0 (JStr (lit ''Hello''))])])))))
       demo_loader)))) (lit ''file_name'') = Some (JStr (lit ''report.pdf'')) \<and>
   file_path demo_loader = lit ''/data/in/'' @ lit ''report.pdf''"
  using file_name_is_basename[of demo_py
          "demo_env (Inr [37, 80, 68, 70])
          (Inr (demo_response 200 (Inr (JObj [(lit ''pages'', JList [demo_page 0 (JStr (lit ''Hello''))])]))))"
          demo_loader]
  by (simp add: load_def load_try_def demo_env_def demo_response_def raise_for_status_def
        http_error_msg_def process_results_def process_page_def dict_get_def demo_page_def
        strip_def isspace_def lit_def page_doc_def demo_loader_def basename_def)

lemma lit_nonempty: "s \<noteq> [] \<Longrightarrow> lit s \<noteq> []"
  by (simp add: lit_def)

lemma invariant_no_pages: "content_invariant (no_pages_doc self)"
  by (simp add: content_invariant_def no_pages_doc_def lit_nonempty)

lemma invariant_no_valid_pages: "content_invariant (no_valid_pages_doc self n)"
proof -
  have "lit ''no_valid_pages'' \<noteq> lit ''no_pages''" by (simp add: lit_def)
  then show ?thesis
    by (simp add: content_invariant_def no_valid_pages_doc_def lit_nonempty)
qed

lemma invariant_processing_failed: "content_invariant (processing_failed_doc self e)"
proof -
  have "lit ''processing_failed'' \<noteq> lit ''no_pages''"
    "lit ''processing_failed'' \<noteq> lit ''no_valid_pages''" by (simp_all add: lit_def)
  then show ?thesis
    by (simp add: content_invariant_def processing_failed_doc_def lit_nonempty)
qed

lemma invariant_page_doc:
  assumes "c \<noteq> []" and "strip c = c"
  shows "content_invariant (page_doc self t c idx label)"
proof -
  from assms have "strip c \<noteq> []" by simp
  from strip_hd[OF this] strip_last[OF this] assms
  have e: "\<not> isspace (hd c)" "\<not> isspace (last c)" by simp_all
  have k: "map_of (metadata (page_doc self t c idx label)) (lit ''error'') = None"
    "map_of (metadata (page_doc self t c idx label)) (lit ''content_length'') =
       Some (JInt (int (length c)))"
    by (simp_all add: page_doc_def lit_def)
  have "page_content (page_doc self t c idx label) = c" by (simp add: page_doc_def)
  with assms e k show ?thesis by (simp add: content_invariant_def)
qed

lemma process_results_invariant:
  assumes "process_results py self r = Inr docs" and "d \<in> set docs"
  shows "content_invariant d"
  using process_results_docs[OF assms(1)] assms(2)
  by (auto simp: invariant_no_pages invariant_no_valid_pages invariant_page_doc)

lemma load_invariant:
  assumes "d \<in> set (fst (load py env self))"
  shows "content_invariant d"
proof (cases "fst (load_try py env self)")
  case (Inl e)
  with assms show ?thesis by (simp add: load_fst invariant_processing_failed)
next
  case (Inr docs)
  from load_try_Inr[OF Inr] obtain r where "process_results py self r = Inr docs" by blast
  moreover from Inr assms have "d \<in> set docs" by (simp add: load_fst)
  ultimately show ?thesis by (rule process_results_invariant)
qed

text \<open>
  C10, amended. Every document returned by \<open>load\<close> or by the result mapping has a
  non-empty content: a page document carries trimmed, non-empty text without leading or
  trailing white space and \<open>content_length\<close> equal to the length of the content; the
  \<open>no_pages\<close> and \<open>no_valid_pages\<close> placeholders carry their fixed message; the
  \<open>processing_failed\<close> placeholder carries \<open>Error during processing: \<close> followed by the
  text of the exception.
\<close>

theorem content_never_empty:
  "(\<forall>d\<in>set (fst (load py env self)). content_invariant d) \<and>
   (\<forall>r docs. process_results py self r = Inr docs \<longrightarrow> (\<forall>d\<in>set docs. content_invariant d)) \<and>
   (\<forall>e. fst (load_try py env self) = Inl e \<longrightarrow>
      fst (load py env self) = [processing_failed_doc self e] \<and>
      page_content (processing_failed_doc self e :: 'a document) =
        lit ''Error during processing: '' @ exn_str e)"
  using load_invariant process_results_invariant
  by (auto simp: load_fst processing_failed_doc_def)

theorem content_never_empty_witness:
  "content_invariant (hd (fst (load demo_py
       (demo_env (Inr [37, 80, 68, 70])
          (Inr (demo_response 200 (Inr (JObj [(lit ''pages'', JList [demo_page 0 (JStr (lit '' Hello ''))])])))))
       demo_loader))) \<and>
   page_content (hd (fst (load demo_py
       (demo_env (Inr [37, 80, 68, 70])
          (Inr (demo_response 200 (Inr (JObj [(lit ''pages'', JList [demo_page 0 (JStr (lit '' Hello ''))])])))))
       demo_loader))) = lit ''Hello''"
  using content_never_empty[of demo_py
          "demo_env (Inr [37, 80, 68, 70])
          (Inr (demo_response 200 (Inr (JObj [(lit ''pages'', JList [demo_page 0 (JStr (lit '' Hello ''))])]))))"
          demo_loader]
  by (simp add: load_def load_try_def demo_env_def demo_response_def raise_for_status_def
        http_error_msg_def process_results_def process_page_def dict_get_def demo_page_def
        strip_def isspace_def lit_def page_doc_def)

text \<open>
  C10 as stated gives the \<open>processing_failed\<close> placeholder a fixed message: two failures
  with different texts give two different contents.
\<close>

theorem failure_message_counterexample:
  "fst (load demo_py (demo_env (Inl (Exn OSError (lit ''Permission denied''))) (Inl (Exn RequestException [])))
          demo_loader) =
     [processing_failed_doc demo_loader (Exn OSError (lit ''Permission denied''))] \<and>
   fst (load demo_py (demo_env (Inl (Exn OSError (lit ''Disk error''))) (Inl (Exn RequestException [])))
          demo_loader) =
     [processing_failed_doc demo_loader (Exn OSError (lit ''Disk error''))] \<and>
   page_content (processing_failed_doc demo_loader (Exn OSError (lit ''Permission denied'')) :: unit document) \<noteq>
   page_content (processing_failed_doc demo_loader (Exn OSError (lit ''Disk error'')) :: unit document)"
  by (simp add: load_def load_try_def demo_env_def processing_failed_doc_def lit_def)

end
